theory Spec2Isabelle
  imports Complex_Main
begin

section \<open>Exceptions and call outcomes\<close>

text \<open>
  The Python exception classes that the two modules raise or catch. An exception is its
  class together with its message text. \<open>QueueFull\<close> and \<open>QueueEmpty\<close> are the standard
  library's \<^verbatim>\<open>queue.Full\<close> and \<^verbatim>\<open>queue.Empty\<close>.
\<close>

datatype exc_class =
  ValueError | TypeError | KeyError | IndexError | AttributeError | NotImplementedError
  | RuntimeError
  | QueueFull | QueueEmpty

datatype error = Exc exc_class string

fun class_of :: "error \<Rightarrow> exc_class" where
  "class_of (Exc c msg) = c"

fun message_of :: "error \<Rightarrow> string" where
  "message_of (Exc c msg) = msg"

text \<open>
  A call on shared state ends in one of three ways: it returns a value, it raises, or it
  suspends the calling thread on a queue (\<open>Block\<close>): a blocking \<^verbatim>\<open>put\<close>/\<^verbatim>\<open>get\<close> without
  timeout waits until some other thread changes the queue, and in a run where no other
  thread does it never returns. Each outcome carries the state reached at that point.
\<close>

datatype ('r, 's) outcome = Return 'r 's | Raise error 's | Block 's

section \<open>The standard library queue\<close>

text \<open>
  \<^verbatim>\<open>multiprocessing.Queue(maxsize)\<close>, by its documented behaviour as a FIFO queue: a
  \<open>maxsize\<close> of zero or less means no bound. A timed wait that expires raises
  \<^verbatim>\<open>Full\<close>/\<^verbatim>\<open>Empty\<close>; with \<open>block = False\<close> the timeout is ignored.
\<close>

record 'a queue =
  maxsize :: int
  items :: "'a list"

definition Queue :: "int \<Rightarrow> 'a queue" where
  "Queue msz = \<lparr>maxsize = msz, items = []\<rparr>"

definition Queue_full :: "'a queue \<Rightarrow> bool" where
  "Queue_full q = (0 < maxsize q \<and> maxsize q \<le> int (length (items q)))"

definition Queue_empty :: "'a queue \<Rightarrow> bool" where
  "Queue_empty q = (items q = [])"

definition Queue_qsize :: "'a queue \<Rightarrow> int" where
  "Queue_qsize q = int (length (items q))"

definition Queue_put :: "'a queue \<Rightarrow> 'a \<Rightarrow> bool \<Rightarrow> real option \<Rightarrow> (unit, 'a queue) outcome" where
  "Queue_put q item block timeout =
     (if \<not> Queue_full q then Return () (q\<lparr>items := items q @ [item]\<rparr>)
      else if block \<and> timeout = None then Block q
      else Raise (Exc QueueFull []) q)"

definition Queue_put_nowait :: "'a queue \<Rightarrow> 'a \<Rightarrow> (unit, 'a queue) outcome" where
  "Queue_put_nowait q item = Queue_put q item False None"

definition Queue_get :: "'a queue \<Rightarrow> bool \<Rightarrow> real option \<Rightarrow> ('a, 'a queue) outcome" where
  "Queue_get q block timeout =
     (case items q of
        x # xs \<Rightarrow> Return x (q\<lparr>items := xs\<rparr>)
      | [] \<Rightarrow> if block \<and> timeout = None then Block q else Raise (Exc QueueEmpty []) q)"

section \<open>utils/buffer.py: the buffer manager\<close>

text \<open>
  Queues are objects: the manager's dictionary \<^verbatim>\<open>_buffers\<close> holds references to them.
  The store maps each address to the queue object living there; \<open>fresh\<close> is the next
  unused address. A manager is its dictionary from buffer names to addresses, so two
  dictionaries can refer to one queue.
\<close>

type_synonym addr = nat

record 'a store =
  queues :: "addr \<Rightarrow> 'a queue"
  fresh :: addr

record BufferManager =
  buffers :: "string \<rightharpoonup> addr"

definition new_Queue :: "int \<Rightarrow> 'a store \<Rightarrow> addr \<times> 'a store" where
  "new_Queue msz s =
     (fresh s, s\<lparr>queues := (queues s)(fresh s := Queue msz), fresh := Suc (fresh s)\<rparr>)"

definition set_queue :: "addr \<Rightarrow> 'a queue \<Rightarrow> 'a store \<Rightarrow> 'a store" where
  "set_queue a q s = s\<lparr>queues := (queues s)(a := q)\<rparr>"

text \<open>\<^verbatim>\<open>__contains__\<close>: \<^verbatim>\<open>name in self._buffers\<close>.\<close>

definition contains :: "BufferManager \<Rightarrow> string \<Rightarrow> bool" where
  "contains manager nm = (buffers manager nm \<noteq> None)"

definition not_registered_msg :: "string \<Rightarrow> string \<Rightarrow> string" where
  "not_registered_msg fname nm =
     ''Fail to call '' @ fname @ '': buffer '' @ [CHR 0x22] @ nm @ [CHR 0x22]
       @ '' is not registered.''"

definition already_registered_msg :: "string \<Rightarrow> string \<Rightarrow> string" where
  "already_registered_msg fname nm =
     ''Fail to call '' @ fname @ '': buffer '' @ [CHR 0x22] @ nm @ [CHR 0x22]
       @ '' is already registered.''"

text \<open>
  The decorator \<^verbatim>\<open>check_buffer_registered(exist)\<close> applied to a method \<open>func\<close> whose
  \<^verbatim>\<open>__name__\<close> is \<open>fname\<close>. The remaining arguments of the method are folded into
  \<open>func\<close>.
\<close>

definition check_buffer_registered ::
  "bool \<Rightarrow> string \<Rightarrow> (BufferManager \<Rightarrow> string \<Rightarrow> 's \<Rightarrow> ('r, 's) outcome)
     \<Rightarrow> BufferManager \<Rightarrow> string \<Rightarrow> 's \<Rightarrow> ('r, 's) outcome" where
  "check_buffer_registered exist fname func manager nm s =
     (if exist then
        (if \<not> contains manager nm
         then Raise (Exc ValueError (not_registered_msg fname nm)) s
         else func manager nm s)
      else
        (if contains manager nm
         then Raise (Exc ValueError (already_registered_msg fname nm)) s
         else func manager nm s))"

text \<open>
  \<^verbatim>\<open>BufferManager(*args)\<close>: \<^verbatim>\<open>__init__(self)\<close> declares no parameter besides \<open>self\<close>, so
  a call with any positional argument raises \<^verbatim>\<open>TypeError\<close> before the body runs;
  without arguments the body sets \<^verbatim>\<open>_buffers = {}\<close>.
\<close>

definition BufferManager_init :: "'x list \<Rightarrow> 's \<Rightarrow> (BufferManager, 's) outcome" where
  "BufferManager_init args s =
     (if args = [] then Return \<lparr>buffers = Map.empty\<rparr> s
      else Raise (Exc TypeError ''__init__() takes 1 positional argument but 2 were given'') s)"

text \<open>
  Subscription \<^verbatim>\<open>self._buffers[name]\<close>: a missing key raises \<^verbatim>\<open>KeyError\<close>.
\<close>

definition subscript :: "BufferManager \<Rightarrow> string \<Rightarrow> error + addr" where
  "subscript manager nm =
     (case buffers manager nm of None \<Rightarrow> Inl (Exc KeyError nm) | Some a \<Rightarrow> Inr a)"

text \<open>
  \<^verbatim>\<open>register_buffer\<close> mutates the manager; the model returns the mutated manager as the
  result value.
\<close>

definition register_buffer ::
  "BufferManager \<Rightarrow> string \<Rightarrow> int \<Rightarrow> 'a store \<Rightarrow> (BufferManager, 'a store) outcome" where
  "register_buffer manager nm msz s =
     check_buffer_registered False ''register_buffer''
       (\<lambda>self nm' s'. case new_Queue msz s' of
                         (a, s'') \<Rightarrow> Return (self\<lparr>buffers := (buffers self)(nm' \<mapsto> a)\<rparr>) s'')
       manager nm s"

definition put ::
  "BufferManager \<Rightarrow> string \<Rightarrow> 'a \<Rightarrow> bool \<Rightarrow> real option \<Rightarrow> 'a store \<Rightarrow> (unit, 'a store) outcome" where
  "put manager nm item block timeout s =
     check_buffer_registered True ''put''
       (\<lambda>self nm' s'. case subscript self nm' of
            Inl e \<Rightarrow> Raise e s'
          | Inr a \<Rightarrow>
              (case Queue_put (queues s' a) item block timeout of
                 Return u q \<Rightarrow> Return u (set_queue a q s')
               | Raise e q \<Rightarrow> Raise e (set_queue a q s')
               | Block q \<Rightarrow> Block (set_queue a q s')))
       manager nm s"

definition try_put ::
  "BufferManager \<Rightarrow> string \<Rightarrow> 'a \<Rightarrow> 'a store \<Rightarrow> (bool, 'a store) outcome" where
  "try_put manager nm item s =
     check_buffer_registered True ''try_put''
       (\<lambda>self nm' s'. case subscript self nm' of
            Inl e \<Rightarrow> Raise e s'
          | Inr a \<Rightarrow>
              (case Queue_put_nowait (queues s' a) item of
                 Return u q \<Rightarrow> Return True (set_queue a q s')
               | Raise e q \<Rightarrow>
                   if class_of e = QueueFull then Return False (set_queue a q s')
                   else Raise e (set_queue a q s')
               | Block q \<Rightarrow> Block (set_queue a q s')))
       manager nm s"

definition get ::
  "BufferManager \<Rightarrow> string \<Rightarrow> bool \<Rightarrow> real option \<Rightarrow> 'a store \<Rightarrow> ('a, 'a store) outcome" where
  "get manager nm block timeout s =
     check_buffer_registered True ''get''
       (\<lambda>self nm' s'. case subscript self nm' of
            Inl e \<Rightarrow> Raise e s'
          | Inr a \<Rightarrow>
              (case Queue_get (queues s' a) block timeout of
                 Return x q \<Rightarrow> Return x (set_queue a q s')
               | Raise e q \<Rightarrow> Raise e (set_queue a q s')
               | Block q \<Rightarrow> Block (set_queue a q s')))
       manager nm s"

definition is_empty :: "BufferManager \<Rightarrow> string \<Rightarrow> 'a store \<Rightarrow> (bool, 'a store) outcome" where
  "is_empty manager nm s =
     check_buffer_registered True ''is_empty''
       (\<lambda>self nm' s'. case subscript self nm' of
            Inl e \<Rightarrow> Raise e s'
          | Inr a \<Rightarrow> Return (Queue_empty (queues s' a)) s')
       manager nm s"

definition is_full :: "BufferManager \<Rightarrow> string \<Rightarrow> 'a store \<Rightarrow> (bool, 'a store) outcome" where
  "is_full manager nm s =
     check_buffer_registered True ''is_full''
       (\<lambda>self nm' s'. case subscript self nm' of
            Inl e \<Rightarrow> Raise e s'
          | Inr a \<Rightarrow> Return (Queue_full (queues s' a)) s')
       manager nm s"

text \<open>
  The dictionary comprehension of \<^verbatim>\<open>get_sub_manager\<close>: it copies the references (the
  addresses), in the order of \<open>buffer_names\<close>, and stops at the first missing name.
\<close>

fun sub_buffers ::
  "BufferManager \<Rightarrow> string list \<Rightarrow> (string \<rightharpoonup> addr) \<Rightarrow> error + (string \<rightharpoonup> addr)" where
  "sub_buffers manager [] acc = Inr acc"
| "sub_buffers manager (nm # nms) acc =
     (case subscript manager nm of
        Inl e \<Rightarrow> Inl e
      | Inr a \<Rightarrow> sub_buffers manager nms (acc(nm \<mapsto> a)))"

definition get_sub_manager ::
  "BufferManager \<Rightarrow> string list \<Rightarrow> 's \<Rightarrow> (BufferManager, 's) outcome" where
  "get_sub_manager manager buffer_names s =
     (case sub_buffers manager buffer_names Map.empty of
        Inl e \<Rightarrow> Raise e s
      | Inr bufs \<Rightarrow> BufferManager_init [bufs] s)"

text \<open>
  Successive calls with the default arguments (\<^verbatim>\<open>block=True, timeout=None\<close>), as a
  caller that puts a list of items one after the other, or calls \<^verbatim>\<open>get\<close> \<open>n\<close> times
  and collects the results in call order, would make them.
\<close>

fun put_all ::
  "BufferManager \<Rightarrow> string \<Rightarrow> 'a list \<Rightarrow> 'a store \<Rightarrow> (unit, 'a store) outcome" where
  "put_all manager nm [] s = Return () s"
| "put_all manager nm (v # vs) s =
     (case put manager nm v True None s of
        Return u s' \<Rightarrow> put_all manager nm vs s'
      | Raise e s' \<Rightarrow> Raise e s'
      | Block s' \<Rightarrow> Block s')"

fun get_n ::
  "BufferManager \<Rightarrow> string \<Rightarrow> nat \<Rightarrow> 'a store \<Rightarrow> ('a list, 'a store) outcome" where
  "get_n manager nm 0 s = Return [] s"
| "get_n manager nm (Suc n) s =
     (case get manager nm True None s of
        Return x s' \<Rightarrow>
          (case get_n manager nm n s' of
             Return xs s'' \<Rightarrow> Return (x # xs) s''
           | Raise e s'' \<Rightarrow> Raise e s''
           | Block s'' \<Rightarrow> Block s'')
      | Raise e s' \<Rightarrow> Raise e s'
      | Block s' \<Rightarrow> Block s')"

fun state_of :: "('r, 's) outcome \<Rightarrow> 's" where
  "state_of (Return r s) = s"
| "state_of (Raise e s) = s"
| "state_of (Block s) = s"

section \<open>nodes/node.py: the node\<close>

text \<open>
  \<^verbatim>\<open>enable_key\<close> is \<^verbatim>\<open>Optional[Union[str, int]]\<close>; the source tests it by its truth
  value (\<^verbatim>\<open>if self.enable_key:\<close>), which is false for \<^verbatim>\<open>None\<close>, the empty string and
  the integer zero.
\<close>

datatype key = StrKey string | IntKey int

fun key_truth :: "key option \<Rightarrow> bool" where
  "key_truth None = False"
| "key_truth (Some (StrKey k)) = (k \<noteq> [])"
| "key_truth (Some (IntKey i)) = (i \<noteq> 0)"

text \<open>
  An entry of \<^verbatim>\<open>input_buffers\<close>. An entry of \<^verbatim>\<open>output_buffers\<close> is a dictionary with the
  single key \<^verbatim>\<open>buffer_name\<close>, kept here as the name itself.
\<close>

record buffer_info =
  buffer_name :: string
  input_name :: string
  essential :: bool

record node =
  node_name :: "string option"
  enabled :: bool
  enable_key :: "key option"
  input_buffers :: "buffer_info list"
  output_buffers :: "string list"
  max_fps :: int
  input_check_interval :: real

text \<open>
  What a subclass of \<^verbatim>\<open>Node\<close> provides: the transform \<^verbatim>\<open>process\<close> (abstract in
  \<^verbatim>\<open>Node\<close>) and, when it overrides it, \<^verbatim>\<open>bypass\<close>. A transform receives the packed
  inputs (logical input name to message or \<^verbatim>\<open>None\<close>) and returns a message or \<^verbatim>\<open>None\<close>,
  or raises.
\<close>

type_synonym 'm inputs = "string \<rightharpoonup> 'm option"

record 'm node_class =
  class_repr :: string
  process :: "'m inputs \<Rightarrow> error + 'm option"
  bypass_override :: "('m inputs \<Rightarrow> error + 'm option) option"

text \<open>\<^verbatim>\<open>is_method_overridden('bypass', Node, self.__class__)\<close>.\<close>

definition is_method_overridden :: "'m node_class \<Rightarrow> bool" where
  "is_method_overridden cls = (bypass_override cls \<noteq> None)"

text \<open>\<^verbatim>\<open>Node.bypass\<close> raises \<^verbatim>\<open>NotImplementedError\<close> unless the subclass overrides it.\<close>

definition bypass :: "'m node_class \<Rightarrow> 'm inputs \<Rightarrow> error + 'm option" where
  "bypass cls input_msgs =
     (case bypass_override cls of
        None \<Rightarrow> Inl (Exc NotImplementedError [])
      | Some f \<Rightarrow> f input_msgs)"

definition toggle_unsupported_msg :: "'m node_class \<Rightarrow> string" where
  "toggle_unsupported_msg cls =
     ''The node '' @ class_repr cls @ '' does not support toggling''
       @ ''enable but got argument `enable_key`. To support toggling''
       @ ''enable, please override the `bypass` method of the node.''"

definition Node_init ::
  "'m node_class \<Rightarrow> string option \<Rightarrow> key option \<Rightarrow> int \<Rightarrow> real \<Rightarrow> error + node" where
  "Node_init cls nm ek fps interval =
     (let self = \<lparr>node_name = nm, enabled = True, enable_key = ek, input_buffers = [],
                  output_buffers = [], max_fps = fps, input_check_interval = interval\<rparr>
      in if key_truth (enable_key self) then
           (if \<not> is_method_overridden cls then
              Inl (Exc NotImplementedError (toggle_unsupported_msg cls))
            else Inr self)
         else Inr self)"

definition register_input_buffer :: "node \<Rightarrow> string \<Rightarrow> string \<Rightarrow> bool \<Rightarrow> node" where
  "register_input_buffer self bn inm ess =
     self\<lparr>input_buffers := input_buffers self
        @ [\<lparr>buffer_name = bn, input_name = inm, essential = ess\<rparr>]\<rparr>"

text \<open>The argument is one name (\<open>Inl\<close>) or a list of names (\<open>Inr\<close>).\<close>

definition register_output_buffer :: "node \<Rightarrow> string + string list \<Rightarrow> node" where
  "register_output_buffer self bn =
     (let names = (case bn of Inl n \<Rightarrow> [n] | Inr ns \<Rightarrow> ns)
      in self\<lparr>output_buffers := output_buffers self @ names\<rparr>)"

text \<open>
  The handler \<^verbatim>\<open>_toggle_enable\<close> that \<^verbatim>\<open>set_runner\<close> registers for the hot-key.
\<close>

definition toggle_enable :: "node \<Rightarrow> node" where
  "toggle_enable self = self\<lparr>enabled := \<not> enabled self\<rparr>"

text \<open>
  The property \<^verbatim>\<open>self.runner\<close> is the runner, or \<^verbatim>\<open>None\<close> when the node is not
  registered to one; \<^verbatim>\<open>self.runner.buffer_manager\<close> then fails on \<^verbatim>\<open>None\<close>.
\<close>

record runner =
  buffer_manager :: BufferManager

definition runner_buffer_manager :: "runner option \<Rightarrow> error + BufferManager" where
  "runner_buffer_manager rn =
     (case rn of
        None \<Rightarrow> Inl (Exc AttributeError ''buffer_manager'')
      | Some r \<Rightarrow> Inr (buffer_manager r))"

subsection \<open>Gathering the inputs\<close>

text \<open>
  The first loop of \<^verbatim>\<open>_get_input_from_buffer\<close>: \<open>Return False\<close> is its early
  \<^verbatim>\<open>return False, None\<close>, \<open>Return True\<close> is the loop running to its end. The
  conjunction short-circuits: \<^verbatim>\<open>is_empty\<close> is called for essential entries only.
\<close>

fun essentials_ready ::
  "BufferManager \<Rightarrow> buffer_info list \<Rightarrow> 'm store \<Rightarrow> (bool, 'm store) outcome" where
  "essentials_ready bm [] s = Return True s"
| "essentials_ready bm (b # bs) s =
     (if essential b then
        (case is_empty bm (buffer_name b) s of
           Return e s' \<Rightarrow> if e then Return False s' else essentials_ready bm bs s'
         | Raise x s' \<Rightarrow> Raise x s'
         | Block s' \<Rightarrow> Block s')
      else essentials_ready bm bs s)"

text \<open>The default input: every logical input name mapped to \<^verbatim>\<open>None\<close>.\<close>

definition default_result :: "buffer_info list \<Rightarrow> 'm inputs" where
  "default_result bs = fold (\<lambda>b r. r(input_name b \<mapsto> None)) bs Map.empty"

text \<open>
  The second loop. The result is \<open>None\<close> for the tuple \<^verbatim>\<open>(False, None)\<close> and
  \<open>Some result\<close> for \<^verbatim>\<open>(True, result)\<close>, the only two shapes the source returns.
  \<^verbatim>\<open>get\<close> is called with its defaults, \<^verbatim>\<open>block=True, timeout=None\<close>; the handler
  catches \<^verbatim>\<open>IndexError\<close> and \<^verbatim>\<open>KeyError\<close> only.
\<close>

fun fetch_inputs ::
  "BufferManager \<Rightarrow> buffer_info list \<Rightarrow> 'm inputs \<Rightarrow> 'm store
     \<Rightarrow> ('m inputs option, 'm store) outcome" where
  "fetch_inputs bm [] result s = Return (Some result) s"
| "fetch_inputs bm (b # bs) result s =
     (case get bm (buffer_name b) True None s of
        Return data s' \<Rightarrow> fetch_inputs bm bs (result(input_name b \<mapsto> Some data)) s'
      | Raise e s' \<Rightarrow>
          if class_of e = IndexError \<or> class_of e = KeyError then
            (if essential b then Return None s'
             else fetch_inputs bm bs (result(input_name b \<mapsto> None)) s')
          else Raise e s'
      | Block s' \<Rightarrow> Block s')"

definition get_input_from_buffer ::
  "node \<Rightarrow> runner option \<Rightarrow> 'm store \<Rightarrow> ('m inputs option, 'm store) outcome" where
  "get_input_from_buffer self rn s =
     (case runner_buffer_manager rn of
        Inl e \<Rightarrow> Raise e s
      | Inr bm \<Rightarrow>
          (case essentials_ready bm (input_buffers self) s of
             Return ready s' \<Rightarrow>
               if \<not> ready then Return None s'
               else fetch_inputs bm (input_buffers self) (default_result (input_buffers self)) s'
           | Raise e s' \<Rightarrow> Raise e s'
           | Block s' \<Rightarrow> Block s'))"

subsection \<open>The scheduling loop\<close>

text \<open>
  The message type is not part of these modules. Of it the loop uses the truth value of a
  message (\<^verbatim>\<open>if output_msg:\<close>) and \<^verbatim>\<open>update_route_info(node, info)\<close>; both are
  parameters. \<open>info\<close> stands for the dictionary of \<^verbatim>\<open>_get_node_info\<close> (a rate and a
  clock reading).
\<close>

record ('m, 'i) message_api =
  msg_bool :: "'m \<Rightarrow> bool"
  update_route_info :: "'m \<Rightarrow> string option \<Rightarrow> 'i \<Rightarrow> 'm"

definition truthy :: "('m, 'i) message_api \<Rightarrow> 'm option \<Rightarrow> bool" where
  "truthy api output_msg = (case output_msg of None \<Rightarrow> False | Some m \<Rightarrow> msg_bool api m)"

text \<open>What an iteration does that an observer outside the node can see, in order.\<close>

datatype event = Sleep real | CallProcess | CallBypass | UpdateRouteInfo | Put string

text \<open>The loop over \<^verbatim>\<open>output_buffers\<close>: a blocking \<^verbatim>\<open>put\<close> of the message to each.\<close>

fun dispatch ::
  "runner option \<Rightarrow> string list \<Rightarrow> 'm \<Rightarrow> 'm store \<Rightarrow> event list \<times> (unit, 'm store) outcome" where
  "dispatch rn [] msg s = ([], Return () s)"
| "dispatch rn (bn # bns) msg s =
     (case runner_buffer_manager rn of
        Inl e \<Rightarrow> ([], Raise e s)
      | Inr bm \<Rightarrow>
          (case put bm bn msg True None s of
             Return u s' \<Rightarrow> (case dispatch rn bns msg s' of (evs, out) \<Rightarrow> (Put bn # evs, out))
           | Raise e s' \<Rightarrow> ([], Raise e s')
           | Block s' \<Rightarrow> ([], Block s')))"

text \<open>\<^verbatim>\<open>if output_msg: output_msg.update_route_info(node=self, info=node_info)\<close>\<close>

definition route_update ::
  "('m, 'i) message_api \<Rightarrow> node \<Rightarrow> 'i \<Rightarrow> 'm option \<Rightarrow> event list \<times> 'm option" where
  "route_update api self info output_msg =
     (case output_msg of
        None \<Rightarrow> ([], None)
      | Some m \<Rightarrow>
          if msg_bool api m
          then ([UpdateRouteInfo], Some (update_route_info api m (node_name self) info))
          else ([], Some m))"

text \<open>\<^verbatim>\<open>if output_msg: for buffer_info in self.output_buffers: ...put(...)\<close>\<close>

definition dispatch_output ::
  "('m, 'i) message_api \<Rightarrow> node \<Rightarrow> runner option \<Rightarrow> 'm option \<Rightarrow> 'm store
     \<Rightarrow> event list \<times> (unit, 'm store) outcome" where
  "dispatch_output api self rn output_msg s =
     (case output_msg of
        None \<Rightarrow> ([], Return () s)
      | Some m \<Rightarrow>
          if msg_bool api m then dispatch rn (output_buffers self) m s
          else ([], Return () s))"

text \<open>
  One pass through the body of \<^verbatim>\<open>while True\<close> in \<^verbatim>\<open>run\<close>. \<open>Return\<close> means the body
  reached its end or its \<^verbatim>\<open>continue\<close>, so the loop goes on. The timer and the rate limiter
  around \<^verbatim>\<open>process\<close> only measure and delay; they are not part of the model.
\<close>

definition run_iteration ::
  "('m, 'i) message_api \<Rightarrow> 'm node_class \<Rightarrow> 'i \<Rightarrow> node \<Rightarrow> runner option \<Rightarrow> 'm store
     \<Rightarrow> event list \<times> (unit, 'm store) outcome" where
  "run_iteration api cls info self rn s =
     (case get_input_from_buffer self rn s of
        Raise e s1 \<Rightarrow> ([], Raise e s1)
      | Block s1 \<Rightarrow> ([], Block s1)
      | Return None s1 \<Rightarrow> ([Sleep (input_check_interval self)], Return () s1)
      | Return (Some input_msgs) s1 \<Rightarrow>
          (if \<not> enabled self then
             (case bypass cls input_msgs of
                Inl e \<Rightarrow> ([CallBypass], Raise e s1)
              | Inr output_msg \<Rightarrow>
                  (case dispatch_output api self rn output_msg s1 of
                     (evs, out) \<Rightarrow> (CallBypass # evs, out)))
           else
             (case process cls input_msgs of
                Inl e \<Rightarrow> ([CallProcess], Raise e s1)
              | Inr output_msg \<Rightarrow>
                  (case route_update api self info output_msg of
                     (evs1, output_msg') \<Rightarrow>
                       (case dispatch_output api self rn output_msg' s1 of
                          (evs2, out) \<Rightarrow> (CallProcess # evs1 @ evs2, out))))))"

text \<open>
  What the loop observes of its environment before an iteration: how many times the hot-key
  listener ran \<^verbatim>\<open>_toggle_enable\<close> since the previous one, what the other threads did to
  the queues meanwhile, and the node information measured in the iteration. \<open>run\<close> over a
  schedule of length \<open>n\<close> is the first \<open>n\<close> iterations of \<^verbatim>\<open>while True\<close>; it stops
  early where an iteration raises or blocks.
\<close>

record ('m, 'i) observed =
  toggles :: nat
  others :: "'m store \<Rightarrow> 'm store"
  node_info :: 'i

fun run ::
  "('m, 'i) message_api \<Rightarrow> 'm node_class \<Rightarrow> runner option \<Rightarrow> ('m, 'i) observed list \<Rightarrow> node
     \<Rightarrow> 'm store \<Rightarrow> event list \<times> (unit, 'm store) outcome" where
  "run api cls rn [] self s = ([], Return () s)"
| "run api cls rn (ob # sched) self s =
     (case run_iteration api cls (node_info ob) ((toggle_enable ^^ toggles ob) self) rn
             (others ob s) of
        (evs, Return u s') \<Rightarrow>
          (case run api cls rn sched ((toggle_enable ^^ toggles ob) self) s' of
             (evs', out) \<Rightarrow> (evs @ evs', out))
      | (evs, Raise e s') \<Rightarrow> (evs, Raise e s')
      | (evs, Block s') \<Rightarrow> (evs, Block s'))"

section \<open>Properties of the buffer manager\<close>

lemma queues_set_queue [simp]: "queues (set_queue a q s) b = (if b = a then q else queues s b)"
  by (simp add: set_queue_def)

lemma set_queue_twice [simp]: "set_queue a q (set_queue a q' s) = set_queue a q s"
  by (simp add: set_queue_def)

lemma fresh_set_queue [simp]: "fresh (set_queue a q s) = fresh s"
  by (simp add: set_queue_def)

lemma set_queue_same: "queues s a = q \<Longrightarrow> set_queue a q s = s"
  by (auto simp add: set_queue_def)

lemma put_registered:
  "buffers manager nm = Some a \<Longrightarrow>
   put manager nm v block timeout s =
     (if \<not> Queue_full (queues s a)
      then Return () (set_queue a ((queues s a)\<lparr>items := items (queues s a) @ [v]\<rparr>) s)
      else if block \<and> timeout = None then Block s
      else Raise (Exc QueueFull []) s)"
  by (simp add: put_def check_buffer_registered_def contains_def subscript_def Queue_put_def
      set_queue_same)

lemma get_registered:
  "buffers manager nm = Some a \<Longrightarrow>
   get manager nm block timeout s =
     (case items (queues s a) of
        x # xs \<Rightarrow> Return x (set_queue a ((queues s a)\<lparr>items := xs\<rparr>) s)
      | [] \<Rightarrow> if block \<and> timeout = None then Block s else Raise (Exc QueueEmpty []) s)"
  by (simp add: get_def check_buffer_registered_def contains_def subscript_def Queue_get_def
      set_queue_same split: list.splits)

lemma is_empty_registered:
  "buffers manager nm = Some a \<Longrightarrow> is_empty manager nm s = Return (items (queues s a) = []) s"
  by (simp add: is_empty_def check_buffer_registered_def contains_def subscript_def Queue_empty_def)

lemma try_put_registered:
  "buffers manager nm = Some a \<Longrightarrow>
   try_put manager nm v s =
     (if Queue_full (queues s a) then Return False s
      else Return True (set_queue a ((queues s a)\<lparr>items := items (queues s a) @ [v]\<rparr>) s))"
  by (simp add: try_put_def check_buffer_registered_def contains_def subscript_def
      Queue_put_nowait_def Queue_put_def set_queue_same)

lemma put_all_registered:
  "buffers manager nm = Some a \<Longrightarrow>
   maxsize (queues s a) \<le> 0 \<or> int (length (items (queues s a)) + length vs) \<le> maxsize (queues s a) \<Longrightarrow>
   put_all manager nm vs s =
     Return () (set_queue a ((queues s a)\<lparr>items := items (queues s a) @ vs\<rparr>) s)"
proof (induction vs arbitrary: s)
  case Nil
  then show ?case by (simp add: set_queue_same)
next
  case (Cons v vs)
  let ?q = "queues s a"
  let ?s1 = "set_queue a (?q\<lparr>items := items ?q @ [v]\<rparr>) s"
  from Cons.prems have nf: "\<not> Queue_full ?q" by (auto simp add: Queue_full_def)
  have step: "put manager nm v True None s = Return () ?s1"
    using Cons.prems(1) nf by (simp add: put_registered)
  have "put_all manager nm vs ?s1 =
     Return () (set_queue a ((queues ?s1 a)\<lparr>items := items (queues ?s1 a) @ vs\<rparr>) ?s1)"
    using Cons.prems by (intro Cons.IH) auto
  then show ?case using step by simp
qed

lemma get_n_registered:
  "buffers manager nm = Some a \<Longrightarrow> items (queues s a) = xs @ ys \<Longrightarrow>
   get_n manager nm (length xs) s = Return xs (set_queue a ((queues s a)\<lparr>items := ys\<rparr>) s)"
proof (induction xs arbitrary: s)
  case Nil
  then show ?case by (simp add: set_queue_same)
next
  case (Cons x xs)
  let ?q = "queues s a"
  let ?s1 = "set_queue a (?q\<lparr>items := xs @ ys\<rparr>) s"
  have step: "get manager nm True None s = Return x ?s1"
    using Cons.prems by (simp add: get_registered)
  have "get_n manager nm (length xs) ?s1 =
     Return xs (set_queue a ((queues ?s1 a)\<lparr>items := ys\<rparr>) ?s1)"
    using Cons.prems by (intro Cons.IH) auto
  then show ?case using step by simp
qed

lemma register_buffer_fresh:
  "\<not> contains manager nm \<Longrightarrow>
   register_buffer manager nm cap s =
     Return (manager\<lparr>buffers := (buffers manager)(nm \<mapsto> fresh s)\<rparr>)
            (s\<lparr>queues := (queues s)(fresh s := Queue cap), fresh := Suc (fresh s)\<rparr>)"
  by (simp add: register_buffer_def check_buffer_registered_def new_Queue_def)

text \<open>
  Claim C7. On a manager where the name is not yet registered, \<^verbatim>\<open>register_buffer(name, cap)\<close>
  succeeds for every capacity; a \<^verbatim>\<open>put\<close> of \<open>v\<close> followed by a \<^verbatim>\<open>get\<close> returns \<open>v\<close>
  itself; and after putting the items \<open>vs\<close> one by one (as many as the capacity admits, any
  number when the capacity is zero or less), as many \<^verbatim>\<open>get\<close>s return exactly \<open>vs\<close>, in
  the order they were put.
\<close>

theorem register_put_get_fifo:
  assumes "\<not> contains manager nm" and "cap \<le> 0 \<or> int (length vs) \<le> cap"
  shows "\<exists>m1 s1 s2 s3 s4 s5.
           register_buffer manager nm cap s = Return m1 s1
         \<and> put m1 nm v True None s1 = Return () s2
         \<and> get m1 nm True None s2 = Return v s3
         \<and> put_all m1 nm vs s1 = Return () s4
         \<and> get_n m1 nm (length vs) s4 = Return vs s5"
proof -
  let ?m1 = "manager\<lparr>buffers := (buffers manager)(nm \<mapsto> fresh s)\<rparr>"
  let ?s1 = "s\<lparr>queues := (queues s)(fresh s := Queue cap), fresh := Suc (fresh s)\<rparr>"
  have reg: "register_buffer manager nm cap s = Return ?m1 ?s1"
    using assms(1) by (rule register_buffer_fresh)
  have b: "buffers ?m1 nm = Some (fresh s)" by simp
  have q: "queues ?s1 (fresh s) = Queue cap" by simp
  have p1: "put ?m1 nm v True None ?s1 =
      Return () (set_queue (fresh s) ((Queue cap)\<lparr>items := [v]\<rparr>) ?s1)"
    using put_registered [OF b, of v True None ?s1] 
    by (auto simp add: Queue_full_def Queue_def)
  have g1: "get ?m1 nm True None (set_queue (fresh s) ((Queue cap)\<lparr>items := [v]\<rparr>) ?s1) =
      Return v (set_queue (fresh s) ((Queue cap)\<lparr>items := []\<rparr>) ?s1)"
    using get_registered [OF b, of True None "set_queue (fresh s) ((Queue cap)\<lparr>items := [v]\<rparr>) ?s1"]
    by simp
  have pa: "put_all ?m1 nm vs ?s1 =
      Return () (set_queue (fresh s) ((Queue cap)\<lparr>items := vs\<rparr>) ?s1)"
    using put_all_registered [OF b, of ?s1 vs] assms(2) by (auto simp add: Queue_def)
  have gn: "get_n ?m1 nm (length vs) (set_queue (fresh s) ((Queue cap)\<lparr>items := vs\<rparr>) ?s1) =
      Return vs (set_queue (fresh s) ((Queue cap)\<lparr>items := []\<rparr>) ?s1)"
    using get_n_registered [OF b, of "set_queue (fresh s) ((Queue cap)\<lparr>items := vs\<rparr>) ?s1" vs "[]"]
    by simp
  show ?thesis using reg p1 g1 pa gn by blast
qed


text \<open>
  Claim C8. On a registered buffer, \<^verbatim>\<open>try_put\<close> returns \<^verbatim>\<open>False\<close> and leaves the whole
  store as it was when the queue is full (bounded and filled to its bound); otherwise it
  returns \<^verbatim>\<open>True\<close> and the only change is the item appended at the tail of that queue.
\<close>

theorem try_put_full_unchanged:
  assumes "buffers manager nm = Some a"
  shows "try_put manager nm v s =
           (if Queue_full (queues s a) then Return False s
            else Return True (set_queue a ((queues s a)\<lparr>items := items (queues s a) @ [v]\<rparr>) s))"
  using assms by (rule try_put_registered)

theorem try_put_full_unchanged_witness:
  "buffers \<lparr>buffers = [''X'' \<mapsto> 0]\<rparr> ''X'' = Some 0
   \<and> try_put \<lparr>buffers = [''X'' \<mapsto> 0]\<rparr> ''X'' (8::nat)
        \<lparr>queues = (\<lambda>_. \<lparr>maxsize = 1, items = [7]\<rparr>), fresh = 1\<rparr>
       = Return False \<lparr>queues = (\<lambda>_. \<lparr>maxsize = 1, items = [7]\<rparr>), fresh = 1\<rparr>
   \<and> try_put \<lparr>buffers = [''X'' \<mapsto> 0]\<rparr> ''X'' (8::nat)
        \<lparr>queues = (\<lambda>_. \<lparr>maxsize = 2, items = [7]\<rparr>), fresh = 1\<rparr>
       = Return True \<lparr>queues = (\<lambda>_. \<lparr>maxsize = 2, items = [7]\<rparr>)(0 := \<lparr>maxsize = 2, items = [7, 8]\<rparr>),
                      fresh = 1\<rparr>"
  using try_put_full_unchanged [of "\<lparr>buffers = [''X'' \<mapsto> 0]\<rparr>" "''X''" 0 "8::nat"
          "\<lparr>queues = (\<lambda>_. \<lparr>maxsize = 1, items = [7]\<rparr>), fresh = 1\<rparr>"]
        try_put_full_unchanged [of "\<lparr>buffers = [''X'' \<mapsto> 0]\<rparr>" "''X''" 0 "8::nat"
          "\<lparr>queues = (\<lambda>_. \<lparr>maxsize = 2, items = [7]\<rparr>), fresh = 1\<rparr>"]
  by (simp add: Queue_full_def set_queue_def)

theorem register_put_get_fifo_witness:
  "\<not> contains \<lparr>buffers = Map.empty\<rparr> ''X''
   \<and> (\<exists>m1 s1 s2 s3 s4 s5.
         register_buffer \<lparr>buffers = Map.empty\<rparr> ''X'' 2
             \<lparr>queues = (\<lambda>_. Queue 0), fresh = 0\<rparr> = Return m1 s1
       \<and> put m1 ''X'' (5::nat) True None s1 = Return () s2
       \<and> get m1 ''X'' True None s2 = Return 5 s3
       \<and> put_all m1 ''X'' [1, 2] s1 = Return () s4
       \<and> get_n m1 ''X'' (length [1, 2::nat]) s4 = Return [1, 2] s5)"
  using register_put_get_fifo [of "\<lparr>buffers = Map.empty\<rparr>" "''X''" 2 "[1, 2::nat]"
          "\<lparr>queues = (\<lambda>_. Queue 0), fresh = 0\<rparr>" "5::nat"]
  by (simp add: contains_def)

text \<open>
  Claim C1. \<^verbatim>\<open>get_sub_manager\<close> never returns a view: whatever the manager and the list of
  names, it raises. With all names registered the dictionary of shared references is built
  and then handed to a constructor that accepts no argument, which raises \<^verbatim>\<open>TypeError\<close>.
\<close>

theorem get_sub_manager_never_returns:
  "get_sub_manager manager buffer_names s \<noteq> Return view s'
   \<and> get_sub_manager \<lparr>buffers = [''X'' \<mapsto> 0]\<rparr> [''X''] s
       = Raise (Exc TypeError ''__init__() takes 1 positional argument but 2 were given'') s"
  by (simp add: get_sub_manager_def BufferManager_init_def subscript_def split: sum.splits)

lemma registered_msgs_differ:
  "already_registered_msg f n \<noteq> not_registered_msg g n'"
proof
  assume eq: "already_registered_msg f n = not_registered_msg g n'"
  have a: "already_registered_msg f n =
      (''Fail to call '' @ f @ '': buffer '' @ [CHR 0x22] @ n @ [CHR 0x22] @ '' is alre'')
        @ ''ady registered.''"
    by (simp add: already_registered_msg_def)
  have b: "not_registered_msg g n' =
      (''Fail to call '' @ g @ '': buffer '' @ [CHR 0x22] @ n' @ [CHR 0x22] @ '' is '')
        @ ''not registered.''"
    by (simp add: not_registered_msg_def)
  have "''ady registered.'' = ''not registered.''"
    using eq unfolding a b by (subst (asm) append_eq_append_conv) simp_all
  then show False by simp
qed

lemma unregistered_raises:
  "\<not> contains manager nm \<Longrightarrow>
   check_buffer_registered True fname func manager nm s
     = Raise (Exc ValueError (not_registered_msg fname nm)) s"
  by (simp add: check_buffer_registered_def)

text \<open>
  Claim C5, amended. \<^verbatim>\<open>register_buffer\<close> on a registered name raises, and \<^verbatim>\<open>put\<close>,
  \<^verbatim>\<open>try_put\<close>, \<^verbatim>\<open>get\<close>, \<^verbatim>\<open>is_empty\<close> and \<^verbatim>\<open>is_full\<close> on an unregistered name raise,
  all leaving the store unchanged. Both failures are of one class, \<^verbatim>\<open>ValueError\<close>; what
  tells them apart is the message text, which always differs.
\<close>

theorem registry_misuse_same_class:
  "(contains manager nm \<longrightarrow>
      register_buffer manager nm cap s
        = Raise (Exc ValueError (already_registered_msg ''register_buffer'' nm)) s)
   \<and> (\<not> contains manager nm \<longrightarrow>
        put manager nm v block timeout s = Raise (Exc ValueError (not_registered_msg ''put'' nm)) s
      \<and> try_put manager nm v s = Raise (Exc ValueError (not_registered_msg ''try_put'' nm)) s
      \<and> get manager nm block timeout s = Raise (Exc ValueError (not_registered_msg ''get'' nm)) s
      \<and> is_empty manager nm s = Raise (Exc ValueError (not_registered_msg ''is_empty'' nm)) s
      \<and> is_full manager nm s = Raise (Exc ValueError (not_registered_msg ''is_full'' nm)) s)
   \<and> class_of (Exc ValueError (already_registered_msg fa nm))
        = class_of (Exc ValueError (not_registered_msg fb nm))
   \<and> already_registered_msg fa nm \<noteq> not_registered_msg fb nm"
  by (simp add: registered_msgs_differ unregistered_raises put_def try_put_def get_def
      is_empty_def is_full_def register_buffer_def check_buffer_registered_def)

theorem registry_misuse_same_class_witness:
  "contains \<lparr>buffers = [''X'' \<mapsto> 0]\<rparr> ''X''
   \<and> register_buffer \<lparr>buffers = [''X'' \<mapsto> 0]\<rparr> ''X'' 0
        (\<lparr>queues = (\<lambda>_. Queue 0), fresh = 1\<rparr> :: nat store)
      = Raise (Exc ValueError (already_registered_msg ''register_buffer'' ''X''))
          \<lparr>queues = (\<lambda>_. Queue 0), fresh = 1\<rparr>
   \<and> \<not> contains \<lparr>buffers = [''X'' \<mapsto> 0]\<rparr> ''Y''
   \<and> get \<lparr>buffers = [''X'' \<mapsto> 0]\<rparr> ''Y'' True None
        (\<lparr>queues = (\<lambda>_. Queue 0), fresh = 1\<rparr> :: nat store)
      = Raise (Exc ValueError (not_registered_msg ''get'' ''Y''))
          \<lparr>queues = (\<lambda>_. Queue 0), fresh = 1\<rparr>"
  using registry_misuse_same_class [of "\<lparr>buffers = [''X'' \<mapsto> 0]\<rparr>" "''X''" 0
          "\<lparr>queues = (\<lambda>_. Queue 0), fresh = 1\<rparr> :: nat store"]
        registry_misuse_same_class [of "\<lparr>buffers = [''X'' \<mapsto> 0]\<rparr>" "''Y''" 0
          "\<lparr>queues = (\<lambda>_. Queue 0), fresh = 1\<rparr> :: nat store" 0 True None]
  by (simp add: contains_def)

text \<open>
  Claim C5 as stated fails: the duplicate registration of \<open>X\<close> and the \<^verbatim>\<open>get\<close> on the
  unregistered \<open>Y\<close> raise exceptions of the same class.
\<close>

theorem registry_errors_counterexample:
  "register_buffer \<lparr>buffers = [''X'' \<mapsto> 0]\<rparr> ''X'' 0
        (\<lparr>queues = (\<lambda>_. Queue 0), fresh = 1\<rparr> :: nat store)
      = Raise (Exc ValueError (already_registered_msg ''register_buffer'' ''X''))
          \<lparr>queues = (\<lambda>_. Queue 0), fresh = 1\<rparr>
   \<and> get \<lparr>buffers = [''X'' \<mapsto> 0]\<rparr> ''Y'' True None
        (\<lparr>queues = (\<lambda>_. Queue 0), fresh = 1\<rparr> :: nat store)
      = Raise (Exc ValueError (not_registered_msg ''get'' ''Y''))
          \<lparr>queues = (\<lambda>_. Queue 0), fresh = 1\<rparr>
   \<and> class_of (Exc ValueError (already_registered_msg ''register_buffer'' ''X''))
      = class_of (Exc ValueError (not_registered_msg ''get'' ''Y''))"
  by (simp add: register_buffer_def get_def check_buffer_registered_def contains_def)

section \<open>Properties of the node\<close>

lemma essentials_ready_state:
  "state_of (essentials_ready bm bs s) = s"
proof (induction bs)
  case Nil
  show ?case by simp
next
  case (Cons b bs)
  show ?case
  proof (cases "essential b")
    case False
    then show ?thesis using Cons.IH by simp
  next
    case True
    show ?thesis
    proof (cases "buffers bm (buffer_name b)")
      case None
      then show ?thesis using True
        by (simp add: is_empty_def check_buffer_registered_def contains_def)
    next
      case (Some a)
      then show ?thesis using True Cons.IH by (simp add: is_empty_registered)
    qed
  qed
qed

lemma essentials_ready_no_block:
  "essentials_ready bm bs s \<noteq> Block s'"
proof (induction bs)
  case Nil
  show ?case by simp
next
  case (Cons b bs)
  show ?case
  proof (cases "buffers bm (buffer_name b)")
    case None
    then show ?thesis using Cons.IH
      by (simp add: is_empty_def check_buffer_registered_def contains_def)
  next
    case (Some a)
    then show ?thesis using Cons.IH by (simp add: is_empty_registered)
  qed
qed

lemma essentials_ready_not_True:
  assumes "b \<in> set bs" "essential b" "buffers bm (buffer_name b) = Some a"
    "items (queues s a) = []"
  shows "essentials_ready bm bs s \<noteq> Return True s'"
  using assms(1)
proof (induction bs)
  case Nil
  then show ?case by simp
next
  case (Cons c cs)
  show ?case
  proof (cases "c = b")
    case True
    then show ?thesis using assms(2-4) by (simp add: is_empty_registered)
  next
    case False
    with Cons have ih: "essentials_ready bm cs s \<noteq> Return True s'" by simp
    show ?thesis
    proof (cases "buffers bm (buffer_name c)")
      case None
      then show ?thesis using ih
        by (simp add: is_empty_def check_buffer_registered_def contains_def)
    next
      case (Some a')
      then show ?thesis using ih by (simp add: is_empty_registered)
    qed
  qed
qed

lemma essentials_ready_registered:
  assumes "\<forall>b\<in>set bs. essential b \<longrightarrow> contains bm (buffer_name b)"
  shows "\<exists>r. essentials_ready bm bs s = Return r s"
  using assms
proof (induction bs)
  case Nil
  show ?case by auto
next
  case (Cons c cs)
  then have ih: "\<exists>r. essentials_ready bm cs s = Return r s" by simp
  show ?case
  proof (cases "essential c")
    case False
    then show ?thesis using ih by simp
  next
    case True
    with Cons.prems obtain a where "buffers bm (buffer_name c) = Some a"
      by (auto simp add: contains_def)
    then show ?thesis using ih True by (auto simp add: is_empty_registered)
  qed
qed

lemma gather_not_ready:
  assumes "b \<in> set (input_buffers self)" "essential b"
    "buffers bm (buffer_name b) = Some a" "items (queues s a) = []"
  shows "(\<exists>e. get_input_from_buffer self (Some \<lparr>buffer_manager = bm\<rparr>) s = Raise e s)
       \<or> get_input_from_buffer self (Some \<lparr>buffer_manager = bm\<rparr>) s = Return None s"
proof (cases "essentials_ready bm (input_buffers self) s")
  case (Return r s')
  have "s' = s" using essentials_ready_state [of bm "input_buffers self" s] Return by simp
  moreover have "\<not> r" using essentials_ready_not_True [OF assms] Return by auto
  ultimately show ?thesis using Return
    by (simp add: get_input_from_buffer_def runner_buffer_manager_def)
next
  case (Raise e s')
  have "s' = s" using essentials_ready_state [of bm "input_buffers self" s] Raise by simp
  then show ?thesis using Raise
    by (simp add: get_input_from_buffer_def runner_buffer_manager_def)
next
  case (Block s')
  then show ?thesis using essentials_ready_no_block by blast
qed

lemma gather_not_ready_registered:
  assumes "b \<in> set (input_buffers self)" "essential b"
    "buffers bm (buffer_name b) = Some a" "items (queues s a) = []"
    "\<forall>b'\<in>set (input_buffers self). essential b' \<longrightarrow> contains bm (buffer_name b')"
  shows "get_input_from_buffer self (Some \<lparr>buffer_manager = bm\<rparr>) s = Return None s"
proof -
  obtain r where r: "essentials_ready bm (input_buffers self) s = Return r s"
    using essentials_ready_registered [OF assms(5)] by blast
  have "\<not> r" using essentials_ready_not_True [OF assms(1-4)] r by auto
  then show ?thesis using r
    by (simp add: get_input_from_buffer_def runner_buffer_manager_def)
qed

lemma toggle_pow_fields:
  "input_buffers ((toggle_enable ^^ k) self) = input_buffers self
   \<and> input_check_interval ((toggle_enable ^^ k) self) = input_check_interval self
   \<and> output_buffers ((toggle_enable ^^ k) self) = output_buffers self"
  by (induction k) (simp_all add: toggle_enable_def)

text \<open>
  Claim C4. Take a node with an essential input whose buffer is registered and empty when
  the iteration gathers its inputs. Then the iteration calls neither \<^verbatim>\<open>process\<close> nor
  \<^verbatim>\<open>bypass\<close> and leaves every queue as it was. When the essential inputs all name
  registered buffers, the iteration is exactly the not-ready one: it sleeps for
  \<^verbatim>\<open>input_check_interval\<close> and the loop goes on with the next iteration. (An essential
  input naming an unregistered buffer makes \<^verbatim>\<open>is_empty\<close> raise instead, still without
  a transform call and without consuming anything.)
\<close>

theorem essential_empty_not_ready:
  assumes "b \<in> set (input_buffers self)" and "essential b"
    and "buffers bm (buffer_name b) = Some a" and "items (queues s a) = []"
  shows "CallProcess \<notin> set (fst (run_iteration api cls info self (Some \<lparr>buffer_manager = bm\<rparr>) s))
       \<and> CallBypass \<notin> set (fst (run_iteration api cls info self (Some \<lparr>buffer_manager = bm\<rparr>) s))
       \<and> state_of (snd (run_iteration api cls info self (Some \<lparr>buffer_manager = bm\<rparr>) s)) = s
       \<and> ((\<forall>b'\<in>set (input_buffers self). essential b' \<longrightarrow> contains bm (buffer_name b')) \<longrightarrow>
            run_iteration api cls info self (Some \<lparr>buffer_manager = bm\<rparr>) s
              = ([Sleep (input_check_interval self)], Return () s)
          \<and> run api cls (Some \<lparr>buffer_manager = bm\<rparr>)
                (\<lparr>toggles = 0, others = (\<lambda>x. x), node_info = info\<rparr> # sched) self s
              = (Sleep (input_check_interval self)
                   # fst (run api cls (Some \<lparr>buffer_manager = bm\<rparr>) sched self s),
                 snd (run api cls (Some \<lparr>buffer_manager = bm\<rparr>) sched self s)))"
proof -
  let ?rn = "Some \<lparr>buffer_manager = bm\<rparr>"
  have g: "(\<exists>e. get_input_from_buffer self ?rn s = Raise e s)
       \<or> get_input_from_buffer self ?rn s = Return None s"
    using assms by (rule gather_not_ready)
  have p1: "CallProcess \<notin> set (fst (run_iteration api cls info self ?rn s))
       \<and> CallBypass \<notin> set (fst (run_iteration api cls info self ?rn s))
       \<and> state_of (snd (run_iteration api cls info self ?rn s)) = s"
    using g by (auto simp add: run_iteration_def)
  have p2: "run_iteration api cls info self ?rn s
              = ([Sleep (input_check_interval self)], Return () s)"
    if "\<forall>b'\<in>set (input_buffers self). essential b' \<longrightarrow> contains bm (buffer_name b')"
    using gather_not_ready_registered [OF assms that] by (simp add: run_iteration_def)
  have p3: "run api cls ?rn (\<lparr>toggles = 0, others = (\<lambda>x. x), node_info = info\<rparr> # sched) self s
              = (Sleep (input_check_interval self) # fst (run api cls ?rn sched self s),
                 snd (run api cls ?rn sched self s))"
    if "\<forall>b'\<in>set (input_buffers self). essential b' \<longrightarrow> contains bm (buffer_name b')"
    using p2 [OF that] by (simp split: prod.splits)
  show ?thesis using p1 p2 p3 by blast
qed








lemma get_frame:
  assumes "buffers bm nm \<noteq> Some a"
  shows "queues (state_of (get bm nm blk t s)) a = queues s a"
proof (cases "buffers bm nm")
  case None
  then show ?thesis by (simp add: get_def check_buffer_registered_def contains_def)
next
  case (Some a')
  then show ?thesis using assms by (simp add: get_registered split: list.splits)
qed

lemma fetch_frame:
  assumes "\<forall>b\<in>set bs. buffers bm (buffer_name b) \<noteq> Some a"
  shows "queues (state_of (fetch_inputs bm bs r s)) a = queues s a"
  using assms
proof (induction bs arbitrary: r s)
  case Nil
  show ?case by simp
next
  case (Cons b bs)
  have nb: "buffers bm (buffer_name b) \<noteq> Some a" using Cons.prems by simp
  have rest: "\<forall>b\<in>set bs. buffers bm (buffer_name b) \<noteq> Some a" using Cons.prems by simp
  note ih = Cons.IH [OF rest]
  have g: "queues (state_of (get bm (buffer_name b) True None s)) a = queues s a"
    using nb by (rule get_frame)
  show ?case
  proof (cases "get bm (buffer_name b) True None s")
    case (Return d s')
    then show ?thesis using g ih by simp
  next
    case (Raise e s')
    then show ?thesis using g ih by simp
  next
    case (Block s')
    then show ?thesis using g by simp
  qed
qed

lemma gather_frame:
  assumes "\<forall>b\<in>set (input_buffers self). buffers bm (buffer_name b) \<noteq> Some a"
  shows "queues (state_of (get_input_from_buffer self (Some \<lparr>buffer_manager = bm\<rparr>) s)) a
           = queues s a"
proof (cases "essentials_ready bm (input_buffers self) s")
  case (Return r s')
  have "s' = s" using essentials_ready_state [of bm "input_buffers self" s] Return by simp
  then show ?thesis
    using Return fetch_frame [OF assms, of "default_result (input_buffers self)" s]
    by (simp add: get_input_from_buffer_def runner_buffer_manager_def)
next
  case (Raise e s')
  have "s' = s" using essentials_ready_state [of bm "input_buffers self" s] Raise by simp
  then show ?thesis using Raise
    by (simp add: get_input_from_buffer_def runner_buffer_manager_def)
next
  case (Block s')
  then show ?thesis using essentials_ready_no_block by blast
qed

text \<open>
  Claim C10. In an iteration whose inputs are ready and whose transform (\<^verbatim>\<open>process\<close>
  when enabled, \<^verbatim>\<open>bypass\<close> otherwise) returns a falsy output (\<^verbatim>\<open>None\<close>, or a message
  whose truth value is false), the only event is the transform call: no route record is
  attached, nothing is put, and the store after the iteration is the store the gathering
  left. Every queue that is not the buffer of an input binding is as it was before the
  iteration.
\<close>

theorem falsy_output_not_dispatched:
  assumes "get_input_from_buffer self rn s = Return (Some input_msgs) s1"
    and "(if enabled self then process cls input_msgs else bypass cls input_msgs) = Inr output_msg"
    and "\<not> truthy api output_msg"
  shows "run_iteration api cls info self rn s
           = ([if enabled self then CallProcess else CallBypass], Return () s1)
       \<and> route_update api self info output_msg = ([], output_msg)
       \<and> dispatch_output api self rn output_msg s1 = ([], Return () s1)
       \<and> (\<forall>bm a. rn = Some \<lparr>buffer_manager = bm\<rparr> \<longrightarrow>
            (\<forall>b\<in>set (input_buffers self). buffers bm (buffer_name b) \<noteq> Some a) \<longrightarrow>
            queues s1 a = queues s a)"
proof -
  have ru: "route_update api self info output_msg = ([], output_msg)"
    using assms(3) by (auto simp add: route_update_def truthy_def split: option.splits)
  have d: "dispatch_output api self rn output_msg s1 = ([], Return () s1)"
    using assms(3) by (auto simp add: dispatch_output_def truthy_def split: option.splits)
  have it: "run_iteration api cls info self rn s
           = ([if enabled self then CallProcess else CallBypass], Return () s1)"
    using assms(1,2) ru d by (simp add: run_iteration_def split: if_splits)
  have fr: "queues s1 a = queues s a"
    if "rn = Some \<lparr>buffer_manager = bm\<rparr>"
      and "\<forall>b\<in>set (input_buffers self). buffers bm (buffer_name b) \<noteq> Some a" for bm a
    using gather_frame [OF that(2), of s] assms(1) that(1) by simp
  from ru d it fr show ?thesis by (intro conjI allI impI) assumption+
qed

text \<open>
  Claim C6. The source decides whether a toggle key is set by the truth value of
  \<^verbatim>\<open>enable_key\<close>, in \<^verbatim>\<open>__init__\<close> and again in \<^verbatim>\<open>set_runner\<close>: \<^verbatim>\<open>None\<close>, the integer
  zero and the empty string are no key, and no hot-key handler is registered for them.
  Construction fails with \<^verbatim>\<open>NotImplementedError\<close> exactly when a key is set in this sense
  and the subclass does not override \<^verbatim>\<open>bypass\<close>; in every other case it succeeds, the
  node starting enabled and without buffers.
\<close>

theorem node_init_toggle_check:
  "Node_init cls nm ek fps interval =
     (if key_truth ek \<and> \<not> is_method_overridden cls
      then Inl (Exc NotImplementedError (toggle_unsupported_msg cls))
      else Inr \<lparr>node_name = nm, enabled = True, enable_key = ek, input_buffers = [],
                output_buffers = [], max_fps = fps, input_check_interval = interval\<rparr>)"
  by (simp add: Node_init_def Let_def)

theorem essential_empty_not_ready_witness:
  "\<lparr>buffer_name = ''A'', input_name = ''a'', essential = True\<rparr>
     \<in> set (input_buffers \<lparr>node_name = None, enabled = True, enable_key = None,
          input_buffers = [\<lparr>buffer_name = ''A'', input_name = ''a'', essential = True\<rparr>],
          output_buffers = [''B''], max_fps = 30, input_check_interval = 1 / 1000\<rparr>)
   \<and> buffers \<lparr>buffers = [''A'' \<mapsto> 0, ''B'' \<mapsto> 1]\<rparr> ''A'' = Some 0
   \<and> items (queues (\<lparr>queues = (\<lambda>_. Queue 0), fresh = 2\<rparr> :: nat store) 0) = []
   \<and> run_iteration \<lparr>msg_bool = (\<lambda>m. m \<noteq> 0), update_route_info = (\<lambda>m n i. m)\<rparr>
        \<lparr>class_repr = ''C'', process = (\<lambda>_. Inr None), bypass_override = None\<rparr> ()
        \<lparr>node_name = None, enabled = True, enable_key = None,
          input_buffers = [\<lparr>buffer_name = ''A'', input_name = ''a'', essential = True\<rparr>],
          output_buffers = [''B''], max_fps = 30, input_check_interval = 1 / 1000\<rparr>
        (Some \<lparr>buffer_manager = \<lparr>buffers = [''A'' \<mapsto> 0, ''B'' \<mapsto> 1]\<rparr>\<rparr>)
        (\<lparr>queues = (\<lambda>_. Queue 0), fresh = 2\<rparr> :: nat store)
      = ([Sleep (1 / 1000)], Return () \<lparr>queues = (\<lambda>_. Queue 0), fresh = 2\<rparr>)"
  using essential_empty_not_ready
    [where b = "\<lparr>buffer_name = ''A'', input_name = ''a'', essential = True\<rparr>"
       and self = "\<lparr>node_name = None, enabled = True, enable_key = None,
          input_buffers = [\<lparr>buffer_name = ''A'', input_name = ''a'', essential = True\<rparr>],
          output_buffers = [''B''], max_fps = 30, input_check_interval = 1 / 1000\<rparr>"
       and bm = "\<lparr>buffers = [''A'' \<mapsto> 0, ''B'' \<mapsto> 1]\<rparr>" and a = 0
       and s = "\<lparr>queues = (\<lambda>_. Queue 0), fresh = 2\<rparr> :: nat store"
       and api = "\<lparr>msg_bool = (\<lambda>m. m \<noteq> 0), update_route_info = (\<lambda>m n i. m)\<rparr>"
       and cls = "\<lparr>class_repr = ''C'', process = (\<lambda>_. Inr None), bypass_override = None\<rparr>"
       and info = "()"]
  by (simp add: contains_def Queue_def)


theorem falsy_output_not_dispatched_witness:
  "get_input_from_buffer
        \<lparr>node_name = None, enabled = True, enable_key = None,
          input_buffers = [\<lparr>buffer_name = ''A'', input_name = ''a'', essential = True\<rparr>],
          output_buffers = [''B''], max_fps = 30, input_check_interval = 1 / 1000\<rparr>
        (Some \<lparr>buffer_manager = \<lparr>buffers = [''A'' \<mapsto> 0, ''B'' \<mapsto> 1]\<rparr>\<rparr>)
        \<lparr>queues = (\<lambda>_. Queue 0)(0 := \<lparr>maxsize = 0, items = [5::nat]\<rparr>), fresh = 2\<rparr>
      = Return (Some [''a'' \<mapsto> Some 5])
          \<lparr>queues = (\<lambda>_. Queue 0)(0 := \<lparr>maxsize = 0, items = []\<rparr>), fresh = 2\<rparr>
   \<and> \<not> truthy \<lparr>msg_bool = (\<lambda>m. m \<noteq> 0), update_route_info = (\<lambda>m n i. m)\<rparr> (Some (0::nat))
   \<and> run_iteration \<lparr>msg_bool = (\<lambda>m. m \<noteq> 0), update_route_info = (\<lambda>m n i. m)\<rparr>
        \<lparr>class_repr = ''C'', process = (\<lambda>_. Inr (Some 0)), bypass_override = None\<rparr> ()
        \<lparr>node_name = None, enabled = True, enable_key = None,
          input_buffers = [\<lparr>buffer_name = ''A'', input_name = ''a'', essential = True\<rparr>],
          output_buffers = [''B''], max_fps = 30, input_check_interval = 1 / 1000\<rparr>
        (Some \<lparr>buffer_manager = \<lparr>buffers = [''A'' \<mapsto> 0, ''B'' \<mapsto> 1]\<rparr>\<rparr>)
        \<lparr>queues = (\<lambda>_. Queue 0)(0 := \<lparr>maxsize = 0, items = [5::nat]\<rparr>), fresh = 2\<rparr>
      = ([CallProcess],
         Return () \<lparr>queues = (\<lambda>_. Queue 0)(0 := \<lparr>maxsize = 0, items = []\<rparr>), fresh = 2\<rparr>)"
  using falsy_output_not_dispatched
    [where self = "\<lparr>node_name = None, enabled = True, enable_key = None,
          input_buffers = [\<lparr>buffer_name = ''A'', input_name = ''a'', essential = True\<rparr>],
          output_buffers = [''B''], max_fps = 30, input_check_interval = 1 / 1000\<rparr>"
       and rn = "Some \<lparr>buffer_manager = \<lparr>buffers = [''A'' \<mapsto> 0, ''B'' \<mapsto> 1]\<rparr>\<rparr>"
       and s = "\<lparr>queues = (\<lambda>_. Queue 0)(0 := \<lparr>maxsize = 0, items = [5::nat]\<rparr>), fresh = 2\<rparr>"
       and input_msgs = "[''a'' \<mapsto> Some 5]"
       and ?s1.0 = "\<lparr>queues = (\<lambda>_. Queue 0)(0 := \<lparr>maxsize = 0, items = []\<rparr>), fresh = 2\<rparr>"
       and cls = "\<lparr>class_repr = ''C'', process = (\<lambda>_. Inr (Some 0)), bypass_override = None\<rparr>"
       and output_msg = "Some 0"
       and api = "\<lparr>msg_bool = (\<lambda>m. m \<noteq> 0), update_route_info = (\<lambda>m n i. m)\<rparr>"
       and info = "()"]
  by (simp add: get_input_from_buffer_def runner_buffer_manager_def is_empty_registered
      get_registered default_result_def set_queue_def truthy_def)

text \<open>
  Claim C2. A node whose only input is inessential, on a registered buffer that is empty:
  gathering does not resolve the input to \<^verbatim>\<open>None\<close>; the blocking \<^verbatim>\<open>get\<close> suspends the
  iteration on that buffer.
\<close>

theorem inessential_empty_blocks:
  "get_input_from_buffer
      (self\<lparr>input_buffers := [\<lparr>buffer_name = nm, input_name = inm, essential = False\<rparr>]\<rparr>)
      (Some \<lparr>buffer_manager = \<lparr>buffers = [nm \<mapsto> a]\<rparr>\<rparr>)
      (s\<lparr>queues := (queues s)(a := Queue msz)\<rparr>)
     = Block (s\<lparr>queues := (queues s)(a := Queue msz)\<rparr>)
   \<and> run_iteration api cls info
      (self\<lparr>input_buffers := [\<lparr>buffer_name = nm, input_name = inm, essential = False\<rparr>]\<rparr>)
      (Some \<lparr>buffer_manager = \<lparr>buffers = [nm \<mapsto> a]\<rparr>\<rparr>)
      (s\<lparr>queues := (queues s)(a := Queue msz)\<rparr>)
     = ([], Block (s\<lparr>queues := (queues s)(a := Queue msz)\<rparr>))"
  by (simp add: run_iteration_def get_input_from_buffer_def runner_buffer_manager_def
      get_registered Queue_def)

text \<open>
  Claim C3. Two essential inputs on \<open>A = [1]\<close> and \<open>B = [2]\<close>: the readiness check
  passes; another consumer then takes the item of \<open>B\<close>; the fetch loop consumes the item
  of \<open>A\<close> and then blocks on \<open>B\<close>, rather than reporting not-ready with \<open>A\<close> intact.
  The same happens without any other thread when \<open>B\<close> is bound twice: the second fetch
  from \<open>B\<close> blocks after both items have been consumed.
\<close>

theorem essential_race_consumes_and_blocks:
  "essentials_ready \<lparr>buffers = [''A'' \<mapsto> 0, ''B'' \<mapsto> 1]\<rparr>
      [\<lparr>buffer_name = ''A'', input_name = ''a'', essential = True\<rparr>,
       \<lparr>buffer_name = ''B'', input_name = ''b'', essential = True\<rparr>]
      \<lparr>queues = (\<lambda>_. Queue 0)(0 := \<lparr>maxsize = 0, items = [1::nat]\<rparr>,
                                 1 := \<lparr>maxsize = 0, items = [2]\<rparr>), fresh = 2\<rparr>
     = Return True
         \<lparr>queues = (\<lambda>_. Queue 0)(0 := \<lparr>maxsize = 0, items = [1]\<rparr>,
                                    1 := \<lparr>maxsize = 0, items = [2]\<rparr>), fresh = 2\<rparr>
   \<and> get \<lparr>buffers = [''A'' \<mapsto> 0, ''B'' \<mapsto> 1]\<rparr> ''B'' True None
      \<lparr>queues = (\<lambda>_. Queue 0)(0 := \<lparr>maxsize = 0, items = [1::nat]\<rparr>,
                                 1 := \<lparr>maxsize = 0, items = [2]\<rparr>), fresh = 2\<rparr>
     = Return 2
         \<lparr>queues = (\<lambda>_. Queue 0)(0 := \<lparr>maxsize = 0, items = [1]\<rparr>,
                                    1 := \<lparr>maxsize = 0, items = []\<rparr>), fresh = 2\<rparr>
   \<and> fetch_inputs \<lparr>buffers = [''A'' \<mapsto> 0, ''B'' \<mapsto> 1]\<rparr>
      [\<lparr>buffer_name = ''A'', input_name = ''a'', essential = True\<rparr>,
       \<lparr>buffer_name = ''B'', input_name = ''b'', essential = True\<rparr>]
      (default_result
        [\<lparr>buffer_name = ''A'', input_name = ''a'', essential = True\<rparr>,
         \<lparr>buffer_name = ''B'', input_name = ''b'', essential = True\<rparr>])
      \<lparr>queues = (\<lambda>_. Queue 0)(0 := \<lparr>maxsize = 0, items = [1::nat]\<rparr>,
                                 1 := \<lparr>maxsize = 0, items = []\<rparr>), fresh = 2\<rparr>
     = Block
         \<lparr>queues = (\<lambda>_. Queue 0)(0 := \<lparr>maxsize = 0, items = []\<rparr>,
                                    1 := \<lparr>maxsize = 0, items = []\<rparr>), fresh = 2\<rparr>
   \<and> get_input_from_buffer
      \<lparr>node_name = None, enabled = True, enable_key = None,
        input_buffers = [\<lparr>buffer_name = ''A'', input_name = ''a'', essential = True\<rparr>,
                         \<lparr>buffer_name = ''B'', input_name = ''b1'', essential = True\<rparr>,
                         \<lparr>buffer_name = ''B'', input_name = ''b2'', essential = True\<rparr>],
        output_buffers = [], max_fps = 30, input_check_interval = 1 / 1000\<rparr>
      (Some \<lparr>buffer_manager = \<lparr>buffers = [''A'' \<mapsto> 0, ''B'' \<mapsto> 1]\<rparr>\<rparr>)
      \<lparr>queues = (\<lambda>_. Queue 0)(0 := \<lparr>maxsize = 0, items = [1::nat]\<rparr>,
                                 1 := \<lparr>maxsize = 0, items = [2]\<rparr>), fresh = 2\<rparr>
     = Block
         \<lparr>queues = (\<lambda>_. Queue 0)(0 := \<lparr>maxsize = 0, items = []\<rparr>,
                                    1 := \<lparr>maxsize = 0, items = []\<rparr>), fresh = 2\<rparr>"
  by (simp add: get_input_from_buffer_def runner_buffer_manager_def is_empty_registered
      get_registered default_result_def set_queue_def fun_eq_iff)

end
